theory Spec2Isabelle
  imports Main
begin

section \<open>Settings, time and the database\<close>

text \<open>
  \<^verbatim>\<open>class Settings(BaseSettings)\<close> of \<^verbatim>\<open>main.py\<close>: three fields read from the environment.
  \<^verbatim>\<open>CACHE_TTL\<close> is a Python int (seconds), so it may be zero or negative.
\<close>

record settings =
  DATABASE_URL :: string
  API_KEY :: string
  CACHE_TTL :: int

text \<open>
  A naive \<^verbatim>\<open>datetime\<close> has microsecond resolution: a point in time is the number of
  microseconds since the epoch, and \<^verbatim>\<open>timedelta(seconds=n)\<close> is \<open>n\<close> million of them.
  The clock reading \<^verbatim>\<open>datetime.utcnow()\<close> is an input of every operation that makes it.
\<close>

type_synonym datetime = int

definition timedelta_seconds :: "int \<Rightarrow> int" where
  "timedelta_seconds n = 1000000 * n"

text \<open>
  The database at the moment of a call: either the connection or the query fails with a
  message, or the view \<^verbatim>\<open>VORP_Latest\<close> holds a list of rows in the engine's order. A row is
  opaque (\<^verbatim>\<open>dict(r._mapping)\<close>), hence a type variable.
\<close>

datatype 'row database = Failing string | Serving "'row list"

datatype fetch_error = SQLAlchemyError string

fun str :: "fetch_error \<Rightarrow> string" where
  "str (SQLAlchemyError m) = m"

text \<open>
  \<^verbatim>\<open>fetch_view_data\<close>: \<^verbatim>\<open>SELECT * FROM VORP_Latest LIMIT :limit\<close> with the limit bound as a
  parameter, the result materialised by a list comprehension. The engine is MySQL (the
  docstring), whose \<^verbatim>\<open>LIMIT\<close> takes a non-negative integer and yields the first rows of the
  result up to that count; a negative argument is rejected as a syntax error (message
  abbreviated here). The model takes the engine to accept every non-negative limit.
\<close>

definition limit_rejected :: string where
  "limit_rejected = ''You have an error in your SQL syntax''"

definition fetch_view_data :: "'row database \<Rightarrow> int \<Rightarrow> fetch_error + 'row list" where
  "fetch_view_data db limit =
     (case db of
        Failing m \<Rightarrow> Inl (SQLAlchemyError m)
      | Serving view \<Rightarrow>
          if limit < 0 then Inl (SQLAlchemyError limit_rejected)
          else Inr (take (nat limit) view))"

section \<open>The cache slot\<close>

text \<open>The two module globals \<^verbatim>\<open>cache_data\<close> and \<^verbatim>\<open>cache_expiry\<close>, both \<^verbatim>\<open>None\<close> at import.\<close>

record 'row cache =
  cache_data :: "'row list option"
  cache_expiry :: "datetime option"

definition initial_cache :: "'row cache" where
  "initial_cache = \<lparr>cache_data = None, cache_expiry = None\<rparr>"

text \<open>
  The test of line 63, \<^verbatim>\<open>cache_data and cache_expiry and now < cache_expiry\<close>, with Python's
  truthiness: \<^verbatim>\<open>None\<close> and the empty list are false, every \<^verbatim>\<open>datetime\<close> is true. The result
  is the rows to serve when the test passes.
\<close>

fun cache_valid :: "'row list option \<Rightarrow> datetime option \<Rightarrow> datetime \<Rightarrow> 'row list option" where
  "cache_valid (Some rows) (Some expiry) now =
     (if rows \<noteq> [] \<and> now < expiry then Some rows else None)"
| "cache_valid _ _ _ = None"

text \<open>
  \<^verbatim>\<open>get_cached_data\<close>. The result is the value returned or the exception raised, the cache
  after the call, and the limits with which the database was queried during the call
  (the call's fetches, in order).
\<close>

definition get_cached_data ::
  "settings \<Rightarrow> datetime \<Rightarrow> 'row database \<Rightarrow> 'row cache \<Rightarrow> int
     \<Rightarrow> (fetch_error + 'row list) \<times> 'row cache \<times> int list" where
  "get_cached_data cfg now db st limit =
     (case cache_valid (cache_data st) (cache_expiry st) now of
        Some rows \<Rightarrow> (Inr rows, st, [])
      | None \<Rightarrow>
          (case fetch_view_data db limit of
             Inl e \<Rightarrow> (Inl e, st, [limit])
           | Inr data \<Rightarrow>
               (Inr data,
                st\<lparr>cache_data := Some data,
                   cache_expiry := Some (now + timedelta_seconds (CACHE_TTL cfg))\<rparr>,
                [limit])))"


section \<open>Access control\<close>

datatype auth_exn = HTTPException nat string | TypeError string

text \<open>
  A header value reaches the application as a \<^verbatim>\<open>str\<close> with one character per byte
  (headers are decoded as Latin-1), which is what a HOL \<open>string\<close> is.
  \<^verbatim>\<open>secrets.compare_digest\<close> on two \<^verbatim>\<open>str\<close> raises \<^verbatim>\<open>TypeError\<close> unless both are ASCII only,
  and otherwise answers whether they are equal.
\<close>

definition isascii :: "string \<Rightarrow> bool" where
  "isascii s = list_all (\<lambda>c. (of_char c :: nat) < 128) s"

definition compare_digest :: "string \<Rightarrow> string \<Rightarrow> auth_exn + bool" where
  "compare_digest a b =
     (if isascii a \<and> isascii b then Inr (a = b)
      else Inl (TypeError ''comparing strings with non-ASCII characters is not supported''))"

text \<open>
  \<^verbatim>\<open>api_key_header = APIKeyHeader(name="X-API-Key", auto_error=True)\<close>: the framework's
  dependency. With \<^verbatim>\<open>auto_error\<close> set, a request whose header is absent or empty
  (\<^verbatim>\<open>if not api_key\<close>) is refused by the framework itself with status 403 and the detail
  \<^verbatim>\<open>Not authenticated\<close>; any other value is handed on.
\<close>

fun api_key_header :: "string option \<Rightarrow> auth_exn + string" where
  "api_key_header None = Inl (HTTPException 403 ''Not authenticated'')"
| "api_key_header (Some k) =
     (if k = [] then Inl (HTTPException 403 ''Not authenticated'') else Inr k)"

definition require_api_key :: "settings \<Rightarrow> string \<Rightarrow> auth_exn + bool" where
  "require_api_key cfg api_key =
     (case compare_digest api_key (API_KEY cfg) of
        Inl e \<Rightarrow> Inl e
      | Inr same \<Rightarrow>
          if \<not> same then Inl (HTTPException 403 ''Invalid API Key'')
          else Inr True)"

text \<open>\<^verbatim>\<open>Depends(require_api_key)\<close> over \<^verbatim>\<open>Depends(api_key_header)\<close>: the chain a request runs.\<close>

definition authorize :: "settings \<Rightarrow> string option \<Rightarrow> auth_exn + bool" where
  "authorize cfg hdr =
     (case api_key_header hdr of
        Inl e \<Rightarrow> Inl e
      | Inr k \<Rightarrow> require_api_key cfg k)"

section \<open>Routes\<close>

datatype 'row content =
    RowsBody "'row list"
  | ErrorBody string
  | DetailBody string
  | StatusBody string
  | MessageBody string
  | PlainText string

datatype 'row response = Response (status_code: nat) (content: "'row content")

text \<open>
  Python's \<^verbatim>\<open>rows[:limit]\<close>: a non-negative limit keeps that many leading rows, a negative
  one drops that many trailing rows; a slice never raises.
\<close>

definition slice_to :: "'a list \<Rightarrow> int \<Rightarrow> 'a list" where
  "slice_to xs limit =
     (if 0 \<le> limit then take (nat limit) xs
      else take (nat (int (length xs) + limit)) xs)"

definition read_view ::
  "settings \<Rightarrow> datetime \<Rightarrow> 'row database \<Rightarrow> 'row cache \<Rightarrow> int
     \<Rightarrow> 'row response \<times> 'row cache \<times> int list" where
  "read_view cfg now db st limit =
     (case get_cached_data cfg now db st limit of
        (Inr rows, st', fetched) \<Rightarrow> (Response 200 (RowsBody (slice_to rows limit)), st', fetched)
      | (Inl e, st', fetched) \<Rightarrow> (Response 500 (ErrorBody (str e)), st', fetched))"

text \<open>
  How the framework answers an exception that leaves a dependency: an \<^verbatim>\<open>HTTPException\<close>
  becomes its status with the body \<^verbatim>\<open>{"detail": ...}\<close>, anything else the plain
  500 page.
\<close>

fun exception_response :: "auth_exn \<Rightarrow> 'row response" where
  "exception_response (HTTPException code detail) = Response code (DetailBody detail)"
| "exception_response (TypeError _) = Response 500 (PlainText ''Internal Server Error'')"

text \<open>
  The three GET routes. A request to \<^verbatim>\<open>/view\<close> carries the \<^verbatim>\<open>X-API-Key\<close> header, if any,
  and the parsed \<^verbatim>\<open>limit\<close> query parameter, if any (default 100).
\<close>

datatype request =
    GetHealth
  | GetRoot
  | GetView (x_api_key: "string option") (limit_param: "int option")

fun handle ::
  "settings \<Rightarrow> datetime \<Rightarrow> 'row database \<Rightarrow> 'row cache \<Rightarrow> request
     \<Rightarrow> 'row response \<times> 'row cache \<times> int list" where
  "handle cfg now db st GetHealth = (Response 200 (StatusBody ''ok''), st, [])"
| "handle cfg now db st GetRoot =
     (Response 200 (MessageBody ''FastAPI running. Use /view with API key to get data.''), st, [])"
| "handle cfg now db st (GetView hdr lim) =
     (case authorize cfg hdr of
        Inl e \<Rightarrow> (exception_response e, st, [])
      | Inr _ \<Rightarrow> read_view cfg now db st (case lim of None \<Rightarrow> 100 | Some n \<Rightarrow> n))"

section \<open>The life of a process\<close>




section \<open>Sample inputs\<close>

text \<open>Concrete settings and cache contents at which the theorems below are evaluated.\<close>

definition sample_settings :: settings where
  "sample_settings = \<lparr>DATABASE_URL = ''mysql://db/vorp'', API_KEY = ''secret'', CACHE_TTL = 60\<rparr>"

definition empty_entry :: "nat cache" where
  "empty_entry = \<lparr>cache_data = Some [], cache_expiry = Some 100\<rparr>"

definition fresh_entry :: "nat cache" where
  "fresh_entry = \<lparr>cache_data = Some [1, 2, 3], cache_expiry = Some 100\<rparr>"


section \<open>Basic facts\<close>



lemma get_cached_data_hit:
  "cache_valid (cache_data st) (cache_expiry st) now = Some rows \<Longrightarrow>
   get_cached_data cfg now db st limit = (Inr rows, st, [])"
  by (simp add: get_cached_data_def)



lemma get_cached_data_fetched:
  "snd (snd (get_cached_data cfg now db st limit)) =
     (if cache_valid (cache_data st) (cache_expiry st) now = None then [limit] else [])"
  by (auto simp: get_cached_data_def split: option.splits sum.splits)

lemma authorize_valid:
  "isascii (API_KEY cfg) \<Longrightarrow> API_KEY cfg \<noteq> [] \<Longrightarrow> authorize cfg (Some (API_KEY cfg)) = Inr True"
  by (simp add: authorize_def require_api_key_def compare_digest_def)

lemma length_slice_to: "0 \<le> n \<Longrightarrow> length (slice_to xs n) \<le> nat n"
  by (simp add: slice_to_def)

lemma slice_to_all: "int (length xs) \<le> n \<Longrightarrow> slice_to xs n = xs"
  by (simp add: slice_to_def)

lemma slice_to_neg:
  "0 < k \<Longrightarrow> slice_to xs (- k) = take (nat (max (int (length xs) - k) 0)) xs"
  by (simp add: slice_to_def max_def)

lemma length_fetch_view_data:
  "0 \<le> n \<Longrightarrow> fetch_view_data db n = Inr rows \<Longrightarrow> length rows \<le> nat n"
  by (auto simp: fetch_view_data_def split: database.splits if_splits)

text \<open>
  A header value with a byte above 127 makes \<^verbatim>\<open>compare_digest\<close> raise; nothing catches the
  \<^verbatim>\<open>TypeError\<close>, and the request is answered with the framework's 500 page.
\<close>

lemma non_ascii_key_is_500:
  "fst (handle sample_settings 0 (Serving [1 :: nat]) initial_cache
          (GetView (Some [char_of (233 :: nat)]) None)) =
     Response 500 (PlainText ''Internal Server Error'')"
  by (simp add: authorize_def require_api_key_def compare_digest_def isascii_def
      sample_settings_def)


lemma read_view_hit:
  "cache_valid (cache_data st) (cache_expiry st) now = Some rows \<Longrightarrow>
   read_view cfg now db st limit = (Response 200 (RowsBody (slice_to rows limit)), st, [])"
  by (simp add: read_view_def get_cached_data_hit)



lemma handle_valid_key:
  "isascii (API_KEY cfg) \<Longrightarrow> API_KEY cfg \<noteq> [] \<Longrightarrow>
   handle cfg now db st (GetView (Some (API_KEY cfg)) lim) =
     read_view cfg now db st (case lim of None \<Rightarrow> 100 | Some n \<Rightarrow> n)"
  by (simp add: authorize_valid)

lemma authorize_refusal_not_200:
  "authorize cfg hdr = Inl e \<Longrightarrow> status_code (exception_response e :: 'row response) \<noteq> 200"
  by (cases hdr)
    (auto simp: authorize_def require_api_key_def compare_digest_def
      split: if_splits sum.splits)

lemma read_view_200:
  "status_code (fst (read_view cfg now db st limit)) = 200 \<Longrightarrow>
   \<exists>rows. fst (get_cached_data cfg now db st limit) = Inr rows \<and>
     content (fst (read_view cfg now db st limit)) = RowsBody (slice_to rows limit)"
  by (cases "get_cached_data cfg now db st limit" rule: prod_cases3)
    (auto simp: read_view_def split: sum.splits)





section \<open>Cache lookup and refresh\<close>




text \<open>
  Claim C5. On a hit (a non-empty cached list, the clock strictly before the expiry)
  \<^verbatim>\<open>get_cached_data\<close> returns the stored rows unchanged whatever limit the call carries, without
  a fetch and without touching the cache; so a request whose limit is at least the number of
  cached rows, however large, is answered with exactly the cached rows.
\<close>

theorem cache_hit_ignores_limit:
  assumes "cache_data st = Some rows" and "rows \<noteq> []"
    and "cache_expiry st = Some expiry" and "now < expiry"
  shows "(\<forall>limit. get_cached_data cfg now db st limit = (Inr rows, st, []))
       \<and> (\<forall>limit. int (length rows) \<le> limit \<longrightarrow>
            read_view cfg now db st limit = (Response 200 (RowsBody rows), st, []))"
proof -
  have "cache_valid (cache_data st) (cache_expiry st) now = Some rows"
    using assms by simp
  then show ?thesis
    by (simp add: get_cached_data_hit read_view_hit slice_to_all)
qed

text \<open>
  Claim C5 at an entry of three rows: limits 2 and 6 both get the three cached rows from
  \<^verbatim>\<open>get_cached_data\<close>, and the route answers limit 6 with those three rows although the view
  holds six.
\<close>

theorem cache_hit_ignores_limit_witness:
  "cache_data fresh_entry = Some [1, 2, 3] \<and> [1, 2, 3 :: nat] \<noteq> [] \<and>
   cache_expiry fresh_entry = Some 100 \<and> (50 :: int) < 100 \<and>
   get_cached_data sample_settings 50 (Serving [1, 2, 3, 4, 5, 6]) fresh_entry 2 =
     (Inr [1, 2, 3], fresh_entry, []) \<and>
   get_cached_data sample_settings 50 (Serving [1, 2, 3, 4, 5, 6]) fresh_entry 6 =
     (Inr [1, 2, 3], fresh_entry, []) \<and>
   int (length [1, 2, 3 :: nat]) \<le> 6 \<and>
   read_view sample_settings 50 (Serving [1, 2, 3, 4, 5, 6]) fresh_entry 6 =
     (Response 200 (RowsBody [1, 2, 3]), fresh_entry, [])"
proof -
  have h: "cache_data fresh_entry = Some [1, 2, 3 :: nat]" "[1, 2, 3 :: nat] \<noteq> []"
      "cache_expiry fresh_entry = Some 100" "(50 :: int) < 100"
    by (simp_all add: fresh_entry_def)
  have l: "int (length [1, 2, 3 :: nat]) \<le> 6"
    by simp
  show ?thesis
    using cache_hit_ignores_limit [OF h, of sample_settings "Serving [1, 2, 3, 4, 5, 6]"] h l
    by blast
qed

text \<open>
  Claim C9. While the slot holds an empty list of rows, every call to \<^verbatim>\<open>get_cached_data\<close>
  queries the database, whatever the clock and the stored expiry: the call makes exactly one
  fetch, with its own limit, and its outcome is the outcome of that fetch. If the fetch
  again returns no rows the slot holds an empty list again, so the next call fetches too.
\<close>

theorem empty_rows_always_refetched:
  assumes "cache_data st = Some []"
  shows "snd (snd (get_cached_data cfg now db st limit)) = [limit]
       \<and> fst (get_cached_data cfg now db st limit) = fetch_view_data db limit
       \<and> (fetch_view_data db limit = Inr [] \<longrightarrow>
            cache_data (fst (snd (get_cached_data cfg now db st limit))) = Some [])"
proof -
  have "cache_valid (cache_data st) (cache_expiry st) now = None"
    using assms by (cases "cache_expiry st") simp_all
  then show ?thesis
    by (simp add: get_cached_data_def split: sum.splits)
qed

text \<open>
  Claim C9 with the clock at 50 and the expiry at 100: the empty entry is not served.
\<close>

theorem empty_rows_always_refetched_witness:
  "cache_data empty_entry = Some [] \<and> cache_expiry empty_entry = Some 100 \<and> (50 :: int) < 100 \<and>
   snd (snd (get_cached_data sample_settings 50 (Serving []) empty_entry 5)) = [5] \<and>
   fst (get_cached_data sample_settings 50 (Serving []) empty_entry 5) = Inr [] \<and>
   fetch_view_data (Serving [] :: nat database) 5 = Inr [] \<and>
   cache_data (fst (snd (get_cached_data sample_settings 50 (Serving []) empty_entry 5))) = Some []"
proof -
  have h: "cache_data empty_entry = Some []"
    and x: "cache_expiry empty_entry = Some 100" "(50 :: int) < 100"
    by (simp_all add: empty_entry_def)
  have f: "fetch_view_data (Serving [] :: nat database) 5 = Inr []"
    by (simp add: fetch_view_data_def)
  show ?thesis
    using empty_rows_always_refetched [OF h, of sample_settings 50 "Serving []" 5] h x f
    by simp
qed

section \<open>Fetch errors\<close>

text \<open>
  Claim C3. When the fetch of a call to \<^verbatim>\<open>get_cached_data\<close> raises, the cache after the call
  is the cache before it, and the call that made the fetch ends with that very error: the
  cache layer does not catch it.
\<close>

theorem fetch_error_leaves_cache:
  assumes "fetch_view_data db limit = Inl e"
  shows "fst (snd (get_cached_data cfg now db st limit)) = st \<and>
         (snd (snd (get_cached_data cfg now db st limit)) \<noteq> [] \<longrightarrow>
            get_cached_data cfg now db st limit = (Inl e, st, [limit]))"
  using assms by (simp add: get_cached_data_def split: option.splits)

text \<open>
  Claim C3 at an expired entry and a database that refuses the connection.
\<close>

theorem fetch_error_leaves_cache_witness:
  "fetch_view_data (Failing ''connection refused'' :: nat database) 5 =
     Inl (SQLAlchemyError ''connection refused'') \<and>
   snd (snd (get_cached_data sample_settings 100 (Failing ''connection refused'') fresh_entry 5)) \<noteq> [] \<and>
   get_cached_data sample_settings 100 (Failing ''connection refused'') fresh_entry 5 =
     (Inl (SQLAlchemyError ''connection refused''), fresh_entry, [5]) \<and>
   fst (snd (get_cached_data sample_settings 100 (Failing ''connection refused'') fresh_entry 5)) =
     fresh_entry"
proof -
  have f: "fetch_view_data (Failing ''connection refused'' :: nat database) 5 =
     Inl (SQLAlchemyError ''connection refused'')"
    by (simp add: fetch_view_data_def)
  have m: "snd (snd (get_cached_data sample_settings 100 (Failing ''connection refused'') fresh_entry 5)) \<noteq> []"
    by (simp add: get_cached_data_fetched fresh_entry_def)
  show ?thesis
    using fetch_error_leaves_cache [OF f, of sample_settings 100 fresh_entry] f m by blast
qed



section \<open>Limits\<close>

text \<open>
  Claim C6. For a non-negative \<open>N\<close>: whatever \<^verbatim>\<open>fetch_view_data\<close> returns for the limit \<open>N\<close>
  is a list (finite and materialised) of at most \<open>N\<close> rows, and on a database that answers
  it does return, namely the first \<open>N\<close> rows of the view; and every response to
  \<^verbatim>\<open>/view?limit=N\<close> with status 200 has a rows body of at most \<open>N\<close> rows.
\<close>

theorem limit_bounds_rows:
  assumes "0 \<le> N"
  shows "(\<forall>rows. fetch_view_data (db :: 'row database) N = Inr rows \<longrightarrow> length rows \<le> nat N)
       \<and> (\<forall>view :: 'row list. fetch_view_data (Serving view) N = Inr (take (nat N) view))
       \<and> (status_code (fst (handle cfg now db st (GetView hdr (Some N)))) = 200 \<longrightarrow>
            (\<exists>rs. content (fst (handle cfg now db st (GetView hdr (Some N)))) = RowsBody rs \<and>
                  length rs \<le> nat N))"
proof (intro conjI allI impI)
  fix rows
  assume "fetch_view_data db N = Inr rows"
  with assms show "length rows \<le> nat N"
    by (rule length_fetch_view_data)
next
  fix view :: "'row list"
  show "fetch_view_data (Serving view) N = Inr (take (nat N) view)"
    using assms by (simp add: fetch_view_data_def)
next
  assume ok: "status_code (fst (handle cfg now db st (GetView hdr (Some N)))) = 200"
  show "\<exists>rs. content (fst (handle cfg now db st (GetView hdr (Some N)))) = RowsBody rs \<and>
          length rs \<le> nat N"
  proof (cases "authorize cfg hdr")
    case (Inl e)
    with ok authorize_refusal_not_200 [OF Inl, where ?'row = 'row] show ?thesis
      by simp
  next
    case (Inr b)
    then have h: "handle cfg now db st (GetView hdr (Some N)) = read_view cfg now db st N"
      by simp
    with ok obtain rows where
      "content (fst (read_view cfg now db st N)) = RowsBody (slice_to rows N)"
      using read_view_200 [of cfg now db st N] by auto
    then show ?thesis
      using assms by (simp add: h length_slice_to del: handle.simps)
  qed
qed

text \<open>
  Claim C6 at \<open>N = 2\<close>, with three rows in the view and three rows in the cache.
\<close>

theorem limit_bounds_rows_witness:
  "(0 :: int) \<le> 2 \<and>
   fetch_view_data (Serving [1, 2, 3 :: nat]) 2 = Inr [1, 2] \<and> length [1, 2 :: nat] \<le> nat 2 \<and>
   fst (handle sample_settings 50 (Serving [1, 2, 3]) fresh_entry (GetView (Some ''secret'') (Some 2))) =
     Response 200 (RowsBody [1, 2]) \<and>
   (\<exists>rs. content (fst (handle sample_settings 50 (Serving [1, 2, 3]) fresh_entry
              (GetView (Some ''secret'') (Some 2)))) = RowsBody rs \<and> length rs \<le> nat 2)"
proof -
  have n: "(0 :: int) \<le> 2"
    by simp
  have a: "isascii (API_KEY sample_settings)" "API_KEY sample_settings \<noteq> []"
    by (simp_all add: sample_settings_def isascii_def)
  have k: "API_KEY sample_settings = ''secret''"
    by (simp add: sample_settings_def)
  have v: "cache_valid (cache_data fresh_entry) (cache_expiry fresh_entry) 50 = Some [1, 2, 3]"
    by (simp add: fresh_entry_def)
  have r: "fst (handle sample_settings 50 (Serving [1, 2, 3]) fresh_entry
      (GetView (Some ''secret'') (Some 2))) = Response 200 (RowsBody [1, 2])"
    using handle_valid_key [OF a, of 50 "Serving [1, 2, 3]" fresh_entry "Some 2"]
    by (simp add: k read_view_hit [OF v] slice_to_def numeral_2_eq_2 del: handle.simps)
  note t = limit_bounds_rows [OF n, where db = "Serving [1, 2, 3 :: nat]"
      and cfg = sample_settings and now = 50 and st = fresh_entry and hdr = "Some ''secret''"]
  have f: "fetch_view_data (Serving [1, 2, 3 :: nat]) 2 = Inr [1, 2]"
    using t by (simp add: numeral_2_eq_2)
  then have l: "length [1, 2 :: nat] \<le> nat 2"
    using t by blast
  have s: "status_code (fst (handle sample_settings 50 (Serving [1, 2, 3]) fresh_entry
      (GetView (Some ''secret'') (Some 2)))) = 200"
    by (simp only: r response.sel)
  have e: "\<exists>rs. content (fst (handle sample_settings 50 (Serving [1, 2, 3]) fresh_entry
              (GetView (Some ''secret'') (Some 2)))) = RowsBody rs \<and> length rs \<le> nat 2"
    using t s by blast
  show ?thesis
    using n f l r e by blast
qed

text \<open>
  Claim C10. The route does not check the sign of \<^verbatim>\<open>limit\<close>: a request with the valid key
  and the limit \<open>- k\<close>, \<open>k > 0\<close>, served from a cache of \<open>n\<close> rows is answered 200 with the
  first \<open>max (n - k) 0\<close> cached rows, without a fetch and without an error.
\<close>

theorem negative_limit_drops_tail:
  assumes "isascii (API_KEY cfg)" and "API_KEY cfg \<noteq> []"
    and "0 < k"
    and "cache_data st = Some rows" and "rows \<noteq> []"
    and "cache_expiry st = Some expiry" and "now < expiry"
  shows "handle cfg now db st (GetView (Some (API_KEY cfg)) (Some (- k))) =
           (Response 200 (RowsBody (take (nat (max (int (length rows) - k) 0)) rows)), st, [])"
proof -
  have "cache_valid (cache_data st) (cache_expiry st) now = Some rows"
    using assms(4-7) by simp
  then have "read_view cfg now db st (- k) =
      (Response 200 (RowsBody (slice_to rows (- k))), st, [])"
    by (rule read_view_hit)
  then show ?thesis
    using assms(3) by (simp add: handle_valid_key [OF assms(1,2)] slice_to_neg del: handle.simps)
qed

text \<open>
  Claim C10 on a cache of three rows: limit \<open>-1\<close> gives the first two, limit \<open>-5\<close> none.
\<close>

theorem negative_limit_drops_tail_witness:
  "isascii (API_KEY sample_settings) \<and> API_KEY sample_settings \<noteq> [] \<and> (0 :: int) < 1 \<and>
   cache_data fresh_entry = Some [1, 2, 3] \<and> [1, 2, 3 :: nat] \<noteq> [] \<and>
   cache_expiry fresh_entry = Some 100 \<and> (50 :: int) < 100 \<and>
   handle sample_settings 50 (Serving [7]) fresh_entry (GetView (Some ''secret'') (Some (- 1))) =
     (Response 200 (RowsBody [1, 2]), fresh_entry, []) \<and>
   handle sample_settings 50 (Serving [7]) fresh_entry (GetView (Some ''secret'') (Some (- 5))) =
     (Response 200 (RowsBody []), fresh_entry, [])"
proof -
  have a: "isascii (API_KEY sample_settings)" "API_KEY sample_settings \<noteq> []"
    and k: "API_KEY sample_settings = ''secret''"
    by (simp_all add: sample_settings_def isascii_def)
  have h: "cache_data fresh_entry = Some [1, 2, 3 :: nat]" "[1, 2, 3 :: nat] \<noteq> []"
      "cache_expiry fresh_entry = Some 100" "(50 :: int) < 100"
    by (simp_all add: fresh_entry_def)
  have p: "(0 :: int) < 1" "(0 :: int) < 5"
    by simp_all
  have c1: "handle sample_settings 50 (Serving [7]) fresh_entry
      (GetView (Some ''secret'') (Some (- 1))) = (Response 200 (RowsBody [1, 2]), fresh_entry, [])"
    using negative_limit_drops_tail [OF a p(1) h, of "Serving [7]"]
    by (simp add: k numeral_2_eq_2 del: handle.simps)
  have c2: "handle sample_settings 50 (Serving [7]) fresh_entry
      (GetView (Some ''secret'') (Some (- 5))) = (Response 200 (RowsBody []), fresh_entry, [])"
    using negative_limit_drops_tail [OF a p(2) h, of "Serving [7]"]
    by (simp add: k del: handle.simps)
  show ?thesis
    using a p(1) h c1 c2 by simp
qed

section \<open>Startup\<close>



section \<open>Access control on \<^verbatim>\<open>/view\<close>\<close>




end
